theory Spec2Isabelle
  imports Complex_Main
begin

section \<open>Smart waste management backend: alert engine and workflows\<close>

text \<open>
  A shallow embedding of the backend's alert service, notification service, device
  controller, collections controller and alerts controller. The durable store (Supabase)
  is a record of tables, each a list of rows in insertion order; every store call of a
  request either answers or returns an error, as decided by the request's environment.
  The store client reports a failure as an error value, so the handlers'
  \<^verbatim>\<open>catch\<close> blocks are never entered and are not modelled. One request reads one
  clock value.
\<close>

subsection \<open>Values\<close>

text \<open>
  A JavaScript number arriving in a JSON body is a finite double; the code only compares
  numbers with integer constants, so a number is modelled by the real it denotes.
  Identifiers are UUID strings (always truthy); timestamps are the ISO strings of
  \<^verbatim>\<open>new Date().toISOString()\<close>, taken from the environment's clock.
\<close>

type_synonym num = real
type_synonym uuid = nat
type_synonym timestamp = nat

text \<open>
  A field of a request body: not sent (\<^verbatim>\<open>undefined\<close>), sent as \<^verbatim>\<open>null\<close>, or sent
  with a value.
\<close>

datatype 'a field = Absent | Null | Val 'a

text \<open>JavaScript truthiness of a field, per type of the value it may hold.\<close>

fun truthy_num :: "num field \<Rightarrow> bool" where
  "truthy_num (Val x) = (x \<noteq> 0)"
| "truthy_num _ = False"

fun truthy_str :: "string field \<Rightarrow> bool" where
  "truthy_str (Val s) = (s \<noteq> [])"
| "truthy_str _ = False"

text \<open>The expression \<^verbatim>\<open>x || null\<close>, as stored in a nullable column.\<close>

fun or_null_num :: "num field \<Rightarrow> num option" where
  "or_null_num (Val x) = (if x \<noteq> 0 then Some x else None)"
| "or_null_num _ = None"

fun or_null_str :: "string field \<Rightarrow> string option" where
  "or_null_str (Val s) = (if s \<noteq> [] then Some s else None)"
| "or_null_str _ = None"

fun or_null_id :: "uuid field \<Rightarrow> uuid option" where
  "or_null_id (Val i) = Some i"
| "or_null_id _ = None"

subsection \<open>Rows of the store\<close>

datatype alert_type = fill_warning | fill_critical | gas_detected | maintenance_needed

datatype severity = low | medium | high | critical

text \<open>
  The message of an alert is one of nine template literals of the alert service, each
  with the measured value interpolated:
  \<^item> \<open>Msg_fill_flash v\<close>: "Bin is v% full -- FLASH ALERT! Immediate collection required."
  \<^item> \<open>Msg_fill_approaching v\<close>: "Bin is v% full -- approaching capacity."
  \<^item> \<open>Msg_fill_schedule v\<close>: "Bin is v% full -- schedule collection soon."
  \<^item> \<open>Msg_gas_dangerous v\<close>: "Dangerous gas level detected: v ppm."
  \<^item> \<open>Msg_gas_elevated v\<close>: "Elevated gas level detected: v ppm."
  \<^item> \<open>Msg_temperature_extreme v\<close>: "Extreme temperature detected: v C."
  \<^item> \<open>Msg_temperature_high v\<close>: "High temperature detected: v C."
  \<^item> \<open>Msg_battery_critical v\<close>: "Battery critically low: v%."
  \<^item> \<open>Msg_battery_low v\<close>: "Battery low: v%."
\<close>

datatype alert_message =
    Msg_fill_flash num
  | Msg_fill_approaching num
  | Msg_fill_schedule num
  | Msg_gas_dangerous num
  | Msg_gas_elevated num
  | Msg_temperature_extreme num
  | Msg_temperature_high num
  | Msg_battery_critical num
  | Msg_battery_low num

record bin =
  b_id :: uuid
  b_bin_code :: string
  b_location :: string
  b_fill_level :: num
  b_last_emptied :: "timestamp option"

record reading =
  rd_id :: uuid
  rd_bin_id :: uuid
  rd_fill_level :: num
  rd_waste_type :: "string option"
  rd_weight :: "num option"
  rd_gas_level :: "num option"
  rd_temperature :: "num option"
  rd_moisture :: "num option"
  rd_battery_level :: "num option"
  rd_created_at :: timestamp

text \<open>The object \<^verbatim>\<open>buildAlert\<close> returns, ready for insertion.\<close>

record new_alert =
  na_bin_id :: uuid
  na_alert_type :: alert_type
  na_severity :: severity
  na_message :: alert_message
  na_resolved :: bool

record alert =
  al_id :: uuid
  al_bin_id :: uuid
  al_alert_type :: alert_type
  al_severity :: severity
  al_message :: alert_message
  al_resolved :: bool
  al_resolved_at :: "timestamp option"
  al_resolved_by :: "uuid option"
  al_created_at :: timestamp

datatype role = admin | collector | operator

record user =
  u_id :: uuid
  u_email :: string
  u_phone :: "string option"
  u_role :: role
  u_is_active :: bool

datatype channel = email | sms | push | other_channel string

datatype delivery_status = pending | sent | failed

record notification =
  n_id :: uuid
  n_user_id :: uuid
  n_alert_id :: "uuid option"
  n_channel :: channel
  n_message :: alert_message
  n_status :: delivery_status
  n_sent_at :: "timestamp option"
  n_created_at :: timestamp

record collection_log =
  cl_id :: uuid
  cl_bin_id :: uuid
  cl_collected_by :: "uuid option"
  cl_fill_level_before :: num
  cl_fill_level_after :: num
  cl_notes :: "string option"
  cl_collected_at :: timestamp

subsection \<open>The world: store, real-time channel, delivery stubs\<close>

datatype payload = P_reading reading | P_alert alert | P_bin bin

text \<open>
  A Socket.IO emission: \<^verbatim>\<open>io.emit(name, x)\<close> to every client, or
  \<^verbatim>\<open>io.to(`bin_${id}`).emit(name, x)\<close> to the room of one bin.
\<close>

datatype event = Broadcast string payload | To_room uuid string payload

record world =
  bins :: "bin list"
  sensor_readings :: "reading list"
  alerts :: "alert list"
  users :: "user list"
  collection_logs :: "collection_log list"
  notifications :: "notification list"
  io :: bool
  emitted :: "event list"
  stub_calls :: "(channel \<times> uuid \<times> alert_message) list"
  next_id :: uuid

text \<open>
  The store calls a request can make. The environment of a request fixes its clock and,
  for each store call, whether the store answers it with an error.
\<close>

datatype store_call =
    Select_bin
  | Insert_reading
  | Update_bin_fill
  | Insert_alerts
  | Select_users uuid
  | Insert_notification uuid "uuid option" channel
  | Update_notification uuid
  | Insert_collection_log
  | Reset_bin
  | Resolve_open_alerts
  | Update_alert

record env =
  now :: timestamp
  fails :: "store_call \<Rightarrow> bool"

datatype error = InvalidInput | NotFound | StorageError

fun status_code :: "error \<Rightarrow> nat" where
  "status_code InvalidInput = 400"
| "status_code NotFound = 404"
| "status_code StorageError = 500"

text \<open>
  \<^verbatim>\<open>.single()\<close>: the one row of a result, an error unless the result has exactly one
  row.
\<close>

fun single :: "'a list \<Rightarrow> 'a option" where
  "single [x] = Some x"
| "single _ = None"

subsection \<open>Alert service: thresholds and candidates\<close>

record thresholds =
  fill_warning_at :: num
  fill_critical_at :: num
  fill_flash_at :: num
  gas_warning_at :: num
  gas_critical_at :: num
  temperature_warning_at :: num
  temperature_critical_at :: num
  battery_warning_at :: num
  battery_critical_at :: num

definition THRESHOLDS :: thresholds where
  "THRESHOLDS = \<lparr>
     fill_warning_at = 50, fill_critical_at = 80, fill_flash_at = 95,
     gas_warning_at = 200, gas_critical_at = 500,
     temperature_warning_at = 45, temperature_critical_at = 60,
     battery_warning_at = 20, battery_critical_at = 10 \<rparr>"

definition buildAlert :: "reading \<Rightarrow> alert_type \<Rightarrow> severity \<Rightarrow> alert_message \<Rightarrow> new_alert" where
  "buildAlert r alertType sev msg = \<lparr>
     na_bin_id = rd_bin_id r, na_alert_type = alertType, na_severity = sev,
     na_message = msg, na_resolved = False \<rparr>"

text \<open>
  The first half of \<^verbatim>\<open>evaluateReading\<close>: the array \<^verbatim>\<open>alerts\<close> after the four
  threshold blocks have pushed to it, in the order of the source.
\<close>

definition candidates :: "reading \<Rightarrow> new_alert list" where
  "candidates r =
    (let a0 = [];
         a1 =
           (if rd_fill_level r \<ge> fill_flash_at THRESHOLDS then
              a0 @ [buildAlert r fill_critical critical (Msg_fill_flash (rd_fill_level r))]
            else if rd_fill_level r \<ge> fill_critical_at THRESHOLDS then
              a0 @ [buildAlert r fill_critical high (Msg_fill_approaching (rd_fill_level r))]
            else if rd_fill_level r \<ge> fill_warning_at THRESHOLDS then
              a0 @ [buildAlert r fill_warning medium (Msg_fill_schedule (rd_fill_level r))]
            else a0);
         a2 =
           (case rd_gas_level r of
              None \<Rightarrow> a1
            | Some g \<Rightarrow>
                if g \<ge> gas_critical_at THRESHOLDS then
                  a1 @ [buildAlert r gas_detected critical (Msg_gas_dangerous g)]
                else if g \<ge> gas_warning_at THRESHOLDS then
                  a1 @ [buildAlert r gas_detected high (Msg_gas_elevated g)]
                else a1);
         a3 =
           (case rd_temperature r of
              None \<Rightarrow> a2
            | Some t \<Rightarrow>
                if t \<ge> temperature_critical_at THRESHOLDS then
                  a2 @ [buildAlert r maintenance_needed critical (Msg_temperature_extreme t)]
                else if t \<ge> temperature_warning_at THRESHOLDS then
                  a2 @ [buildAlert r maintenance_needed high (Msg_temperature_high t)]
                else a2);
         a4 =
           (case rd_battery_level r of
              None \<Rightarrow> a3
            | Some b \<Rightarrow>
                if b \<le> battery_critical_at THRESHOLDS then
                  a3 @ [buildAlert r maintenance_needed critical (Msg_battery_critical b)]
                else if b \<le> battery_warning_at THRESHOLDS then
                  a3 @ [buildAlert r maintenance_needed medium (Msg_battery_low b)]
                else a3)
     in a4)"

subsection \<open>WebSocket service\<close>

definition emitSensorReading :: "world \<Rightarrow> reading \<Rightarrow> world" where
  "emitSensorReading w r =
    (if \<not> io w then w
     else w\<lparr>emitted := emitted w @
       [Broadcast ''sensor_reading'' (P_reading r),
        To_room (rd_bin_id r) ''bin_update'' (P_reading r)]\<rparr>)"

definition emitAlert :: "world \<Rightarrow> alert \<Rightarrow> world" where
  "emitAlert w a =
    (if \<not> io w then w
     else w\<lparr>emitted := emitted w @
       [Broadcast ''new_alert'' (P_alert a),
        To_room (al_bin_id a) ''bin_alert'' (P_alert a)]\<rparr>)"

definition emitBinStatusUpdate :: "world \<Rightarrow> bin \<Rightarrow> world" where
  "emitBinStatusUpdate w b =
    (if \<not> io w then w
     else w\<lparr>emitted := emitted w @
       [Broadcast ''bin_status_update'' (P_bin b),
        To_room (b_id b) ''bin_update'' (P_bin b)]\<rparr>)"

subsection \<open>Notification service\<close>

text \<open>
  The three channel senders are stubs that log and return \<^verbatim>\<open>true\<close>; the model records
  each call.
\<close>

definition sendEmail :: "world \<Rightarrow> uuid \<Rightarrow> alert_message \<Rightarrow> bool \<times> world" where
  "sendEmail w userId msg = (True, w\<lparr>stub_calls := stub_calls w @ [(email, userId, msg)]\<rparr>)"

definition sendSMS :: "world \<Rightarrow> uuid \<Rightarrow> alert_message \<Rightarrow> bool \<times> world" where
  "sendSMS w userId msg = (True, w\<lparr>stub_calls := stub_calls w @ [(sms, userId, msg)]\<rparr>)"

definition sendPush :: "world \<Rightarrow> uuid \<Rightarrow> alert_message \<Rightarrow> bool \<times> world" where
  "sendPush w userId msg = (True, w\<lparr>stub_calls := stub_calls w @ [(push, userId, msg)]\<rparr>)"

record notify_opts =
  o_user_id :: uuid
  o_alert_id :: "uuid option"
  o_channel :: channel
  o_message :: alert_message

text \<open>
  \<^verbatim>\<open>sendNotification\<close>: insert a pending row (return \<^verbatim>\<open>null\<close> when the insert
  errors), call the channel's sender (an unknown channel is not delivered), then update
  the row's status and \<^verbatim>\<open>sent_at\<close>; the result of that update is not looked at. The
  function returns the row as it was inserted.
\<close>

definition sendNotification :: "env \<Rightarrow> world \<Rightarrow> notify_opts \<Rightarrow> notification option \<times> world" where
  "sendNotification e w opts =
    (if fails e (Insert_notification (o_user_id opts) (o_alert_id opts) (o_channel opts)) then
       (None, w)
     else
       let notification = \<lparr>
             n_id = next_id w, n_user_id = o_user_id opts, n_alert_id = o_alert_id opts,
             n_channel = o_channel opts, n_message = o_message opts, n_status = pending,
             n_sent_at = None, n_created_at = now e \<rparr>;
           w1 = w\<lparr>notifications := notifications w @ [notification],
                  next_id := Suc (next_id w)\<rparr>;
           (delivered, w2) =
             (case o_channel opts of
                email \<Rightarrow> sendEmail w1 (o_user_id opts) (o_message opts)
              | sms \<Rightarrow> sendSMS w1 (o_user_id opts) (o_message opts)
              | push \<Rightarrow> sendPush w1 (o_user_id opts) (o_message opts)
              | other_channel c \<Rightarrow> (False, w1));
           newStatus = (if delivered then sent else failed);
           w3 =
             (if fails e (Update_notification (n_id notification)) then w2
              else w2\<lparr>notifications :=
                map (\<lambda>n. if n_id n = n_id notification
                          then n\<lparr>n_status := newStatus,
                                 n_sent_at := (if delivered then Some (now e) else None)\<rparr>
                          else n)
                    (notifications w2)\<rparr>)
       in (Some notification, w3))"

subsection \<open>Alert service: persisting and notifying\<close>

text \<open>The body of the loop over the fetched users in \<^verbatim>\<open>notifyRelevantUsers\<close>.\<close>

definition notify_user :: "env \<Rightarrow> alert \<Rightarrow> world \<Rightarrow> user \<Rightarrow> world" where
  "notify_user e a w u =
    (let w1 =
           (if u_email u \<noteq> [] then
              snd (sendNotification e w \<lparr>o_user_id = u_id u, o_alert_id = Some (al_id a),
                     o_channel = email, o_message = al_message a\<rparr>)
            else w);
         w2 =
           (if (case u_phone u of None \<Rightarrow> False | Some p \<Rightarrow> p \<noteq> []) \<and> al_severity a = critical then
              snd (sendNotification e w1 \<lparr>o_user_id = u_id u, o_alert_id = Some (al_id a),
                     o_channel = sms, o_message = al_message a\<rparr>)
            else w1)
     in w2)"

fun notify_users :: "env \<Rightarrow> alert \<Rightarrow> user list \<Rightarrow> world \<Rightarrow> world" where
  "notify_users e a [] w = w"
| "notify_users e a (u # us) w = notify_users e a us (notify_user e a w u)"

definition notifyRelevantUsers :: "env \<Rightarrow> world \<Rightarrow> alert \<Rightarrow> world" where
  "notifyRelevantUsers e w a =
    (if fails e (Select_users (al_id a)) then w
     else
       let us = filter (\<lambda>u. (u_role u = admin \<or> u_role u = collector) \<and> u_is_active u) (users w)
       in notify_users e a us w)"

text \<open>
  The rows the store returns for a batch insert of candidates: identifiers are fresh,
  the resolution columns take their defaults (null).
\<close>

fun alert_rows :: "uuid \<Rightarrow> timestamp \<Rightarrow> new_alert list \<Rightarrow> alert list" where
  "alert_rows i t [] = []"
| "alert_rows i t (c # cs) =
     \<lparr>al_id = i, al_bin_id = na_bin_id c, al_alert_type = na_alert_type c,
      al_severity = na_severity c, al_message = na_message c, al_resolved = na_resolved c,
      al_resolved_at = None, al_resolved_by = None, al_created_at = t\<rparr>
     # alert_rows (Suc i) t cs"

text \<open>The loop over the inserted rows: emit each alert, notify for high and critical.\<close>

fun emit_and_notify :: "env \<Rightarrow> alert list \<Rightarrow> world \<Rightarrow> world" where
  "emit_and_notify e [] w = w"
| "emit_and_notify e (a # as) w =
     (let w1 = emitAlert w a;
          w2 = (if al_severity a = high \<or> al_severity a = critical
                then notifyRelevantUsers e w1 a else w1)
      in emit_and_notify e as w2)"

definition evaluateReading :: "env \<Rightarrow> world \<Rightarrow> reading \<Rightarrow> alert list \<times> world" where
  "evaluateReading e w r =
    (let cs = candidates r in
     if length cs > 0 then
       (if fails e Insert_alerts then ([], w)
        else
          let data = alert_rows (next_id w) (now e) cs;
              w1 = w\<lparr>alerts := alerts w @ data, next_id := next_id w + length data\<rparr>;
              w2 = emit_and_notify e data w1
          in (data, w2))
     else ([], w))"

subsection \<open>Device controller: receiving a sensor reading\<close>

record sensor_request =
  bin_code :: "string field"
  fill_level :: "num field"
  waste_type :: "string field"
  weight :: "num field"
  gas_level :: "num field"
  temperature :: "num field"
  moisture :: "num field"
  battery_level :: "num field"

text \<open>
  The comparisons \<^verbatim>\<open>fill_level < 0\<close> and \<^verbatim>\<open>fill_level > 100\<close>: \<^verbatim>\<open>null\<close> converts
  to 0, so both are false for it.
\<close>

fun out_of_range :: "num field \<Rightarrow> bool" where
  "out_of_range (Val x) = (x < 0 \<or> x > 100)"
| "out_of_range _ = False"

text \<open>
  The outcome of \<^verbatim>\<open>receiveSensorData\<close>: an error with its status code, or the 201
  response with the stored reading and \<^verbatim>\<open>alerts_generated\<close>. The column
  \<^verbatim>\<open>sensor_readings.fill_level\<close> is NOT NULL, so the store rejects a null fill level.
\<close>

definition receiveSensorData :: "env \<Rightarrow> world \<Rightarrow> sensor_request \<Rightarrow> (error + reading \<times> nat) \<times> world" where
  "receiveSensorData e w req =
    (if \<not> truthy_str (bin_code req) \<or> fill_level req = Absent then (Inl InvalidInput, w)
     else if out_of_range (fill_level req) then (Inl InvalidInput, w)
     else
       case (if fails e Select_bin then None
             else single (filter (\<lambda>b. Val (b_bin_code b) = bin_code req) (bins w))) of
         None \<Rightarrow> (Inl NotFound, w)
       | Some b \<Rightarrow>
           (case (if fails e Insert_reading then None
                  else case fill_level req of Val x \<Rightarrow> Some x | _ \<Rightarrow> None) of
              None \<Rightarrow> (Inl StorageError, w)
            | Some x \<Rightarrow>
                let r = \<lparr>rd_id = next_id w, rd_bin_id = b_id b, rd_fill_level = x,
                         rd_waste_type = or_null_str (waste_type req),
                         rd_weight = or_null_num (weight req),
                         rd_gas_level = or_null_num (gas_level req),
                         rd_temperature = or_null_num (temperature req),
                         rd_moisture = or_null_num (moisture req),
                         rd_battery_level = or_null_num (battery_level req),
                         rd_created_at = now e\<rparr>;
                    w1 = w\<lparr>sensor_readings := sensor_readings w @ [r],
                           next_id := Suc (next_id w)\<rparr>;
                    w2 = (if fails e Update_bin_fill then w1
                          else w1\<lparr>bins := map (\<lambda>b'. if b_id b' = b_id b
                                                      then b'\<lparr>b_fill_level := x\<rparr> else b')
                                                (bins w1)\<rparr>);
                    w3 = emitSensorReading w2 r;
                    (als, w4) = evaluateReading e w3 r
                in (Inr (r, length als), w4)))"

subsection \<open>Collections controller\<close>

record collection_request =
  c_bin_id :: "uuid field"
  c_collected_by :: "uuid field"
  c_notes :: "string field"

text \<open>
  The update that resolves the open alerts of a bin: every alert row with this
  \<^verbatim>\<open>bin_id\<close> and \<^verbatim>\<open>resolved = false\<close> gets \<^verbatim>\<open>resolved\<close>, \<^verbatim>\<open>resolved_at\<close> and
  \<^verbatim>\<open>resolved_by\<close>.
\<close>

definition resolveOpenAlerts :: "timestamp \<Rightarrow> uuid \<Rightarrow> uuid option \<Rightarrow> alert list \<Rightarrow> alert list" where
  "resolveOpenAlerts t binId resolvedBy as =
    map (\<lambda>a. if al_bin_id a = binId \<and> al_resolved a = False
              then a\<lparr>al_resolved := True, al_resolved_at := Some t, al_resolved_by := resolvedBy\<rparr>
              else a) as"

definition createCollection :: "env \<Rightarrow> world \<Rightarrow> collection_request \<Rightarrow> (error + collection_log) \<times> world" where
  "createCollection e w req =
    (case c_bin_id req of
       Val binId \<Rightarrow>
         (case (if fails e Select_bin then None
                else single (filter (\<lambda>b. b_id b = binId) (bins w))) of
            None \<Rightarrow> (Inl NotFound, w)
          | Some b \<Rightarrow>
              if fails e Insert_collection_log then (Inl StorageError, w)
              else
                let log = \<lparr>cl_id = next_id w, cl_bin_id = binId,
                           cl_collected_by = or_null_id (c_collected_by req),
                           cl_fill_level_before = b_fill_level b, cl_fill_level_after = 0,
                           cl_notes = or_null_str (c_notes req), cl_collected_at = now e\<rparr>;
                    w1 = w\<lparr>collection_logs := collection_logs w @ [log],
                           next_id := Suc (next_id w)\<rparr>;
                    (updatedBin, w2) =
                      (if fails e Reset_bin then (None, w1)
                       else
                         let bs = map (\<lambda>b'. if b_id b' = binId
                                             then b'\<lparr>b_fill_level := 0, b_last_emptied := Some (now e)\<rparr>
                                             else b') (bins w1)
                         in (single (filter (\<lambda>b'. b_id b' = binId) bs), w1\<lparr>bins := bs\<rparr>));
                    w3 = (if fails e Resolve_open_alerts then w2
                          else w2\<lparr>alerts := resolveOpenAlerts (now e) binId
                                                (or_null_id (c_collected_by req)) (alerts w2)\<rparr>);
                    w4 = (case updatedBin of None \<Rightarrow> w3 | Some ub \<Rightarrow> emitBinStatusUpdate w3 ub)
                in (Inr log, w4))
     | _ \<Rightarrow> (Inl InvalidInput, w))"

subsection \<open>Alerts controller: resolving one alert\<close>

text \<open>
  The body of \<^verbatim>\<open>PATCH /api/alerts/:id\<close>; \<^verbatim>\<open>resolved\<close> is a boolean when sent.
\<close>

record resolve_request =
  p_resolved :: "bool option"
  p_resolved_by :: "uuid field"

text \<open>The effect of \<^verbatim>\<open>updatePayload\<close> on a row.\<close>

definition updatePayload :: "env \<Rightarrow> resolve_request \<Rightarrow> alert \<Rightarrow> alert" where
  "updatePayload e req a =
    (let a1 = (case p_resolved req of
                 None \<Rightarrow> a
               | Some r \<Rightarrow> a\<lparr>al_resolved := r,
                              al_resolved_at := (if r then Some (now e) else None)\<rparr>);
         a2 = (case p_resolved_by req of
                 Val rb \<Rightarrow> a1\<lparr>al_resolved_by := Some rb\<rparr>
               | _ \<Rightarrow> a1)
     in a2)"

definition resolveAlert :: "env \<Rightarrow> world \<Rightarrow> uuid \<Rightarrow> resolve_request \<Rightarrow> (error + alert) \<times> world" where
  "resolveAlert e w aid req =
    (case (if fails e Update_alert then None
           else single (filter (\<lambda>a. al_id a = aid) (alerts w))) of
       None \<Rightarrow> (Inl NotFound, w)
     | Some a \<Rightarrow>
         (Inr (updatePayload e req a),
          w\<lparr>alerts := map (\<lambda>a'. if al_id a' = aid then updatePayload e req a' else a') (alerts w)\<rparr>))"

section \<open>Specification-side definitions\<close>

text \<open>
  The tier table of the specification, field by field, written from its words: the kind
  and severity a measured value maps to, as a list of at most one element.
\<close>

definition tier_fill :: "num \<Rightarrow> (alert_type \<times> severity) list" where
  "tier_fill f =
    (if 50 \<le> f \<and> f < 80 then [(fill_warning, medium)]
     else if 80 \<le> f \<and> f < 95 then [(fill_critical, high)]
     else if 95 \<le> f then [(fill_critical, critical)]
     else [])"

definition tier_gas :: "num option \<Rightarrow> (alert_type \<times> severity) list" where
  "tier_gas g =
    (case g of
       None \<Rightarrow> []
     | Some x \<Rightarrow>
         if 500 \<le> x then [(gas_detected, critical)]
         else if 200 \<le> x \<and> x < 500 then [(gas_detected, high)]
         else [])"

definition tier_temperature :: "num option \<Rightarrow> (alert_type \<times> severity) list" where
  "tier_temperature t =
    (case t of
       None \<Rightarrow> []
     | Some x \<Rightarrow>
         if 60 \<le> x then [(maintenance_needed, critical)]
         else if 45 \<le> x \<and> x < 60 then [(maintenance_needed, high)]
         else [])"

definition tier_battery :: "num option \<Rightarrow> (alert_type \<times> severity) list" where
  "tier_battery b =
    (case b of
       None \<Rightarrow> []
     | Some x \<Rightarrow>
         if x \<le> 10 then [(maintenance_needed, critical)]
         else if 10 < x \<and> x \<le> 20 then [(maintenance_needed, medium)]
         else [])"

text \<open>
  The measured field a candidate reports: each of the nine message templates belongs to
  one threshold block of \<^verbatim>\<open>evaluateReading\<close>.
\<close>

datatype sensor_field = Fill | Gas | Temperature | Battery

fun origin :: "alert_message \<Rightarrow> sensor_field" where
  "origin (Msg_fill_flash v) = Fill"
| "origin (Msg_fill_approaching v) = Fill"
| "origin (Msg_fill_schedule v) = Fill"
| "origin (Msg_gas_dangerous v) = Gas"
| "origin (Msg_gas_elevated v) = Gas"
| "origin (Msg_temperature_extreme v) = Temperature"
| "origin (Msg_temperature_high v) = Temperature"
| "origin (Msg_battery_critical v) = Battery"
| "origin (Msg_battery_low v) = Battery"

text \<open>
  The recipient policy in the words of the specification, with the guards of
  \<^verbatim>\<open>notifyRelevantUsers\<close>: the recipients are the active admins and collectors; a
  recipient gets an email when the email address is not empty, and an sms when the phone
  is present and the alert is critical. A notification is identified here by its
  recipient, alert and channel.
\<close>

definition policy_recipients :: "user list \<Rightarrow> user list" where
  "policy_recipients us =
     filter (\<lambda>u. (u_role u = admin \<or> u_role u = collector) \<and> u_is_active u) us"

definition policy_channels :: "alert \<Rightarrow> user \<Rightarrow> channel list" where
  "policy_channels a u =
     (if u_email u \<noteq> [] then [email] else []) @
     (if u_phone u \<noteq> None \<and> u_phone u \<noteq> Some [] \<and> al_severity a = critical then [sms] else [])"

definition policy_fanout :: "user list \<Rightarrow> alert \<Rightarrow> (uuid \<times> uuid option \<times> channel) list" where
  "policy_fanout us a =
     (if al_severity a = high \<or> al_severity a = critical
      then concat (map (\<lambda>u. map (\<lambda>ch. (u_id u, Some (al_id a), ch)) (policy_channels a u))
                       (policy_recipients us))
      else [])"

definition n_key :: "notification \<Rightarrow> uuid \<times> uuid option \<times> channel" where
  "n_key n = (n_user_id n, n_alert_id n, n_channel n)"

text \<open>The HTTP status of a response: the error's code, or 201.\<close>

definition response_status :: "error + 'a \<Rightarrow> nat" where
  "response_status res = (case res of Inl err \<Rightarrow> status_code err | Inr x \<Rightarrow> 201)"

section \<open>Concrete inputs\<close>

definition reading_fill85_battery5 :: reading where
  "reading_fill85_battery5 = \<lparr>rd_id = 1, rd_bin_id = 2, rd_fill_level = 85,
     rd_waste_type = None, rd_weight = None, rd_gas_level = None, rd_temperature = None,
     rd_moisture = None, rd_battery_level = Some 5, rd_created_at = 0\<rparr>"

definition reading_all_breached :: reading where
  "reading_all_breached = \<lparr>rd_id = 1, rd_bin_id = 2, rd_fill_level = 60,
     rd_waste_type = None, rd_weight = None, rd_gas_level = Some 250.5,
     rd_temperature = Some 61, rd_moisture = None, rd_battery_level = Some 15,
     rd_created_at = 0\<rparr>"

definition reading_fill97 :: reading where
  "reading_fill97 = \<lparr>rd_id = 1, rd_bin_id = 1, rd_fill_level = 97,
     rd_waste_type = None, rd_weight = None, rd_gas_level = None, rd_temperature = None,
     rd_moisture = None, rd_battery_level = None, rd_created_at = 0\<rparr>"

definition demo_bin :: bin where
  "demo_bin = \<lparr>b_id = 1, b_bin_code = ''BIN-001'', b_location = ''Depot'',
     b_fill_level = 10, b_last_emptied = None\<rparr>"

definition demo_users :: "user list" where
  "demo_users =
    [\<lparr>u_id = 10, u_email = ''admin@example.org'', u_phone = Some ''0700'', u_role = admin,
      u_is_active = True\<rparr>,
     \<lparr>u_id = 11, u_email = ''collector@example.org'', u_phone = None, u_role = collector,
      u_is_active = True\<rparr>,
     \<lparr>u_id = 12, u_email = ''operator@example.org'', u_phone = Some ''0701'', u_role = operator,
      u_is_active = True\<rparr>,
     \<lparr>u_id = 13, u_email = ''former@example.org'', u_phone = Some ''0702'', u_role = admin,
      u_is_active = False\<rparr>]"

definition demo_world :: world where
  "demo_world = \<lparr>bins = [demo_bin], sensor_readings = [], alerts = [], users = demo_users,
     collection_logs = [], notifications = [], io = True, emitted = [], stub_calls = [],
     next_id = 100\<rparr>"

definition world_blank_email :: world where
  "world_blank_email = demo_world\<lparr>users :=
     [\<lparr>u_id = 14, u_email = [], u_phone = None, u_role = admin, u_is_active = True\<rparr>]\<rparr>"

definition env_ok :: env where
  "env_ok = \<lparr>now = 1000, fails = (\<lambda>c. False)\<rparr>"

definition env_failing :: "store_call \<Rightarrow> env" where
  "env_failing c = \<lparr>now = 1000, fails = (\<lambda>c'. c' = c)\<rparr>"

definition request_fill :: "num field \<Rightarrow> sensor_request" where
  "request_fill f = \<lparr>bin_code = Val ''BIN-001'', fill_level = f, waste_type = Absent,
     weight = Absent, gas_level = Absent, temperature = Absent, moisture = Absent,
     battery_level = Absent\<rparr>"

definition request_zero_battery :: sensor_request where
  "request_zero_battery = \<lparr>bin_code = Val ''BIN-001'', fill_level = Val 30,
     waste_type = Absent, weight = Absent, gas_level = Val 0, temperature = Val 28.3,
     moisture = Absent, battery_level = Val 0\<rparr>"

definition collect_request :: collection_request where
  "collect_request = \<lparr>c_bin_id = Val 1, c_collected_by = Val 11, c_notes = Absent\<rparr>"

definition open_alert :: alert where
  "open_alert = \<lparr>al_id = 50, al_bin_id = 1, al_alert_type = fill_critical,
     al_severity = high, al_message = Msg_fill_approaching 85, al_resolved = False,
     al_resolved_at = None, al_resolved_by = None, al_created_at = 900\<rparr>"


definition world_open_alert :: world where
  "world_open_alert = demo_world\<lparr>alerts := [open_alert]\<rparr>"

definition demo_opts :: notify_opts where
  "demo_opts = \<lparr>o_user_id = 10, o_alert_id = Some 50, o_channel = email,
     o_message = Msg_fill_approaching 85\<rparr>"

definition resolve_by_10 :: resolve_request where
  "resolve_by_10 = \<lparr>p_resolved = Some True, p_resolved_by = Val 10\<rparr>"

definition unresolve :: resolve_request where
  "unresolve = \<lparr>p_resolved = Some False, p_resolved_by = Absent\<rparr>"

section \<open>Properties\<close>

subsection \<open>Threshold policy\<close>

text \<open>
  C1. For every reading, the kinds and severities of the candidates that
  \<^verbatim>\<open>evaluateReading\<close> builds are those of the tier table, field by field: fill in
  [50,80) gives one fill_warning/medium, [80,95) fill_critical/high, 95 and above
  fill_critical/critical, below 50 nothing; gas 500 and above gives gas_detected/critical,
  [200,500) gas_detected/high; temperature 60 and above maintenance_needed/critical,
  [45,60) maintenance_needed/high; battery at most 10 maintenance_needed/critical, in
  (10,20] maintenance_needed/medium; an absent field, or a value outside these ranges,
  gives nothing.
\<close>

theorem C1_threshold_tiers:
  "map (\<lambda>a. (na_alert_type a, na_severity a)) (candidates r) =
     tier_fill (rd_fill_level r) @ tier_gas (rd_gas_level r) @
     tier_temperature (rd_temperature r) @ tier_battery (rd_battery_level r)"
  by (simp add: candidates_def THRESHOLDS_def buildAlert_def Let_def tier_fill_def
      tier_gas_def tier_temperature_def tier_battery_def split: option.split)

theorem C1_threshold_tiers_witness:
  "map (\<lambda>a. (na_alert_type a, na_severity a)) (candidates reading_all_breached) =
     [(fill_warning, medium), (gas_detected, high), (maintenance_needed, critical),
      (maintenance_needed, medium)]"
  using C1_threshold_tiers [of reading_all_breached]
  by (simp add: reading_all_breached_def tier_fill_def tier_gas_def tier_temperature_def
      tier_battery_def)

text \<open>
  C2. For every reading, the candidates come in the order fill, gas, temperature,
  battery, with at most one candidate per field: the fields the candidates report are
  exactly the breached ones, each once, in that order. A field that is absent contributes
  nothing. A reading with fill 85 and battery 5 (nothing else reported) yields a fill
  candidate followed by a battery candidate.
\<close>

theorem C2_candidate_order:
  "map (origin \<circ> na_message) (candidates r) =
     (if rd_fill_level r \<ge> 50 then [Fill] else []) @
     (case rd_gas_level r of None \<Rightarrow> [] | Some g \<Rightarrow> if g \<ge> 200 then [Gas] else []) @
     (case rd_temperature r of None \<Rightarrow> [] | Some t \<Rightarrow> if t \<ge> 45 then [Temperature] else []) @
     (case rd_battery_level r of None \<Rightarrow> [] | Some b \<Rightarrow> if b \<le> 20 then [Battery] else [])"
  by (simp add: candidates_def THRESHOLDS_def buildAlert_def Let_def split: option.split)

theorem C2_candidate_order_witness:
  "map (origin \<circ> na_message) (candidates reading_fill85_battery5) = [Fill, Battery]"
  using C2_candidate_order [of reading_fill85_battery5]
  by (simp add: reading_fill85_battery5_def)

subsection \<open>Frame lemmas: what notifying and publishing leave unchanged\<close>

lemma sendNotification_frame:
  "alerts (snd (sendNotification e w opts)) = alerts w \<and>
   users (snd (sendNotification e w opts)) = users w \<and>
   bins (snd (sendNotification e w opts)) = bins w \<and>
   sensor_readings (snd (sendNotification e w opts)) = sensor_readings w \<and>
   collection_logs (snd (sendNotification e w opts)) = collection_logs w \<and>
   io (snd (sendNotification e w opts)) = io w"
  by (simp add: sendNotification_def sendEmail_def sendSMS_def sendPush_def Let_def
      split: channel.split)

lemma notify_user_frame:
  "alerts (notify_user e a w u) = alerts w \<and>
   users (notify_user e a w u) = users w \<and>
   bins (notify_user e a w u) = bins w \<and>
   sensor_readings (notify_user e a w u) = sensor_readings w \<and>
   collection_logs (notify_user e a w u) = collection_logs w \<and>
   io (notify_user e a w u) = io w"
  by (simp add: notify_user_def Let_def sendNotification_frame)

lemma notify_users_frame:
  "alerts (notify_users e a us w) = alerts w \<and>
   users (notify_users e a us w) = users w \<and>
   bins (notify_users e a us w) = bins w \<and>
   sensor_readings (notify_users e a us w) = sensor_readings w \<and>
   collection_logs (notify_users e a us w) = collection_logs w \<and>
   io (notify_users e a us w) = io w"
  by (induction us arbitrary: w) (simp_all add: notify_user_frame)

lemma notifyRelevantUsers_frame:
  "alerts (notifyRelevantUsers e w a) = alerts w \<and>
   users (notifyRelevantUsers e w a) = users w \<and>
   bins (notifyRelevantUsers e w a) = bins w \<and>
   sensor_readings (notifyRelevantUsers e w a) = sensor_readings w \<and>
   collection_logs (notifyRelevantUsers e w a) = collection_logs w \<and>
   io (notifyRelevantUsers e w a) = io w"
  by (simp add: notifyRelevantUsers_def Let_def notify_users_frame)

lemma emitAlert_frame:
  "alerts (emitAlert w a) = alerts w \<and>
   users (emitAlert w a) = users w \<and>
   bins (emitAlert w a) = bins w \<and>
   sensor_readings (emitAlert w a) = sensor_readings w \<and>
   collection_logs (emitAlert w a) = collection_logs w \<and>
   notifications (emitAlert w a) = notifications w \<and>
   io (emitAlert w a) = io w"
  by (simp add: emitAlert_def)

lemma emit_and_notify_frame:
  "alerts (emit_and_notify e as w) = alerts w \<and>
   users (emit_and_notify e as w) = users w \<and>
   bins (emit_and_notify e as w) = bins w \<and>
   sensor_readings (emit_and_notify e as w) = sensor_readings w \<and>
   collection_logs (emit_and_notify e as w) = collection_logs w \<and>
   io (emit_and_notify e as w) = io w"
  by (induction as arbitrary: w)
     (simp_all add: Let_def emitAlert_frame notifyRelevantUsers_frame)

lemma emitBinStatusUpdate_frame:
  "bins (emitBinStatusUpdate w b) = bins w \<and>
   alerts (emitBinStatusUpdate w b) = alerts w \<and>
   collection_logs (emitBinStatusUpdate w b) = collection_logs w"
  by (simp add: emitBinStatusUpdate_def)

subsection \<open>Recording alerts\<close>

lemma length_alert_rows: "length (alert_rows i t cs) = length cs"
  by (induction cs arbitrary: i) simp_all

lemma message_alert_rows: "map al_message (alert_rows i t cs) = map na_message cs"
  by (induction cs arbitrary: i) simp_all

lemma evaluateReading_alerts:
  "alerts (snd (evaluateReading e w r)) = alerts w @ fst (evaluateReading e w r)"
  by (simp add: evaluateReading_def Let_def emit_and_notify_frame)

lemma evaluateReading_length:
  "length (fst (evaluateReading e w r)) =
     (if fails e Insert_alerts then 0 else length (candidates r))"
  by (simp add: evaluateReading_def Let_def length_alert_rows)

lemma evaluateReading_insert_fails:
  "fails e Insert_alerts \<Longrightarrow> evaluateReading e w r = ([], w)"
  by (simp add: evaluateReading_def Let_def)

lemma evaluateReading_messages:
  "map al_message (fst (evaluateReading e w r)) =
     (if fails e Insert_alerts then [] else map na_message (candidates r))"
  by (simp add: evaluateReading_def Let_def message_alert_rows)

text \<open>The path of a request that passes validation, finds its bin and stores its reading.\<close>

lemma receiveSensorData_stored:
  assumes "truthy_str (bin_code req)" and "fill_level req = Val x" and "0 \<le> x" and "x \<le> 100"
    and "\<not> fails e Select_bin"
    and "single (filter (\<lambda>b. Val (b_bin_code b) = bin_code req) (bins w)) = Some b"
    and "\<not> fails e Insert_reading"
  shows "receiveSensorData e w req =
     (let r = \<lparr>rd_id = next_id w, rd_bin_id = b_id b, rd_fill_level = x,
                rd_waste_type = or_null_str (waste_type req),
                rd_weight = or_null_num (weight req),
                rd_gas_level = or_null_num (gas_level req),
                rd_temperature = or_null_num (temperature req),
                rd_moisture = or_null_num (moisture req),
                rd_battery_level = or_null_num (battery_level req),
                rd_created_at = now e\<rparr>;
          w1 = w\<lparr>sensor_readings := sensor_readings w @ [r], next_id := Suc (next_id w)\<rparr>;
          w2 = (if fails e Update_bin_fill then w1
                else w1\<lparr>bins := map (\<lambda>b'. if b_id b' = b_id b
                                            then b'\<lparr>b_fill_level := x\<rparr> else b') (bins w1)\<rparr>);
          w3 = emitSensorReading w2 r
      in (Inr (r, length (fst (evaluateReading e w3 r))), snd (evaluateReading e w3 r)))"
  using assms by (simp add: receiveSensorData_def Let_def split_beta)

lemma receiveSensorData_success:
  assumes "receiveSensorData e w req = (Inr (rd, n), w')"
  obtains x b where "truthy_str (bin_code req)" and "fill_level req = Val x"
    and "0 \<le> x" and "x \<le> 100" and "\<not> fails e Select_bin"
    and "single (filter (\<lambda>b. Val (b_bin_code b) = bin_code req) (bins w)) = Some b"
    and "\<not> fails e Insert_reading"
  using assms
  by (auto simp: receiveSensorData_def split: if_splits option.splits field.splits)

text \<open>
  C3. Alert recording is all-or-nothing: \<^verbatim>\<open>evaluateReading\<close> returns either one row per
  candidate or, when the batch insert errors, the empty sequence, and the rows it returns
  are exactly the rows added to the alerts table. When the insert errors nothing at all
  changes (no row, no event, no notification), and a request that passed validation, found
  its bin and stored its reading still answers 201 with the reading and
  \<^verbatim>\<open>alerts_generated\<close> equal to 0.
\<close>

theorem C3_alert_insert_all_or_nothing:
  "length (fst (evaluateReading e w r)) =
     (if fails e Insert_alerts then 0 else length (candidates r)) \<and>
   alerts (snd (evaluateReading e w r)) = alerts w @ fst (evaluateReading e w r) \<and>
   (fails e Insert_alerts \<longrightarrow> evaluateReading e w r = ([], w)) \<and>
   (fails e Insert_alerts \<and> truthy_str (bin_code req) \<and> fill_level req = Val x \<and>
    0 \<le> x \<and> x \<le> 100 \<and> \<not> fails e Select_bin \<and>
    single (filter (\<lambda>b. Val (b_bin_code b) = bin_code req) (bins w)) = Some b \<and>
    \<not> fails e Insert_reading \<longrightarrow>
      (\<exists>rd w'. receiveSensorData e w req = (Inr (rd, 0), w') \<and>
         rd \<in> set (sensor_readings w') \<and> alerts w' = alerts w))"
proof -
  have "\<exists>rd w'. receiveSensorData e w req = (Inr (rd, 0), w') \<and>
         rd \<in> set (sensor_readings w') \<and> alerts w' = alerts w"
    if f: "fails e Insert_alerts" and v: "truthy_str (bin_code req)" "fill_level req = Val x"
      "0 \<le> x" "x \<le> 100" "\<not> fails e Select_bin"
      "single (filter (\<lambda>b. Val (b_bin_code b) = bin_code req) (bins w)) = Some b"
      "\<not> fails e Insert_reading"
    using receiveSensorData_stored [OF v]
    by (simp add: Let_def evaluateReading_insert_fails [OF f] emitSensorReading_def)
  then show ?thesis
    using evaluateReading_length [of e w r] evaluateReading_alerts [of e w r]
      evaluateReading_insert_fails [of e w r]
    by blast
qed

theorem C3_alert_insert_all_or_nothing_witness:
  "fails (env_failing Insert_alerts) Insert_alerts \<and>
   length (candidates reading_fill85_battery5) = 2 \<and>
   evaluateReading (env_failing Insert_alerts) demo_world reading_fill85_battery5 =
     ([], demo_world) \<and>
   (\<exists>rd w'. receiveSensorData (env_failing Insert_alerts) demo_world (request_fill (Val 97)) =
       (Inr (rd, 0), w') \<and> rd \<in> set (sensor_readings w') \<and> alerts w' = alerts demo_world)"
  using C3_alert_insert_all_or_nothing [of "env_failing Insert_alerts" demo_world
      reading_fill85_battery5 "request_fill (Val 97)" 97 demo_bin]
  by (simp add: env_failing_def demo_world_def demo_bin_def request_fill_def
      reading_fill85_battery5_def candidates_def THRESHOLDS_def buildAlert_def Let_def)

subsection \<open>Ingestion: rejections\<close>

text \<open>
  The rejections of \<^verbatim>\<open>receiveSensorData\<close>, in the order of the code. A request whose
  \<^verbatim>\<open>bin_code\<close> is not sent, null or empty, whose \<^verbatim>\<open>fill_level\<close> is not sent, or
  whose \<^verbatim>\<open>fill_level\<close> is a number outside [0,100] fails with InvalidInput (400). A
  request with a bin code and a fill level in range that names a bin code no bin has fails
  with NotFound (404). Such a request that finds its bin, but whose sensor-reading insert
  errors, fails with StorageError (500). In each case the world is unchanged: no row, no
  bin update, no event, no threshold evaluation.
\<close>

lemma receiveSensorData_rejections:
  "(\<not> truthy_str (bin_code req) \<or> fill_level req = Absent \<or>
      (\<exists>x. fill_level req = Val x \<and> (x < 0 \<or> x > 100)) \<longrightarrow>
      receiveSensorData e w req = (Inl InvalidInput, w)) \<and>
   (truthy_str (bin_code req) \<and> fill_level req = Val x \<and> 0 \<le> x \<and> x \<le> 100 \<and>
      (\<forall>b \<in> set (bins w). Val (b_bin_code b) \<noteq> bin_code req) \<longrightarrow>
      receiveSensorData e w req = (Inl NotFound, w)) \<and>
   (truthy_str (bin_code req) \<and> fill_level req = Val x \<and> 0 \<le> x \<and> x \<le> 100 \<and>
      \<not> fails e Select_bin \<and>
      single (filter (\<lambda>b. Val (b_bin_code b) = bin_code req) (bins w)) = Some b \<and>
      fails e Insert_reading \<longrightarrow>
      receiveSensorData e w req = (Inl StorageError, w)) \<and>
   response_status (Inl InvalidInput :: error + reading \<times> nat) = 400 \<and>
   response_status (Inl NotFound :: error + reading \<times> nat) = 404 \<and>
   response_status (Inl StorageError :: error + reading \<times> nat) = 500"
proof -
  have nf: "filter (\<lambda>b. Val (b_bin_code b) = bin_code req) (bins w) = []"
    if "\<forall>b \<in> set (bins w). Val (b_bin_code b) \<noteq> bin_code req"
    using that by (simp add: filter_empty_conv)
  show ?thesis
    by (auto simp: receiveSensorData_def response_status_def nf)
qed

text \<open>
  A fill level sent as \<^verbatim>\<open>null\<close> is not caught by the validation: it is not
  \<^verbatim>\<open>undefined\<close>, and both range comparisons are false for it. The request goes on to
  the bin lookup and to the insert, which the store rejects.
\<close>

lemma receiveSensorData_null_fill_level:
  assumes "truthy_str (bin_code req)" and "fill_level req = Null"
  shows "receiveSensorData e w req =
     (if fails e Select_bin \<or>
         single (filter (\<lambda>b. Val (b_bin_code b) = bin_code req) (bins w)) = None
      then (Inl NotFound, w) else (Inl StorageError, w))"
  using assms by (simp add: receiveSensorData_def split: option.split)

text \<open>
  C4. The rejection of a missing fill level with InvalidInput (400) before any persistence
  does not hold when the fill level is sent as \<^verbatim>\<open>null\<close>: for the existing bin
  BIN-001 the request reaches the insert and answers StorageError (500), and for an unknown
  bin code it answers NotFound (404); it never answers 400. A bin code sent as
  \<^verbatim>\<open>null\<close> is rejected with 400, and so is a fill level that is not sent.
\<close>

theorem C4_null_fill_level_not_rejected:
  "receiveSensorData env_ok demo_world (request_fill Null) = (Inl StorageError, demo_world) \<and>
   response_status (fst (receiveSensorData env_ok demo_world (request_fill Null))) = 500 \<and>
   receiveSensorData env_ok demo_world ((request_fill Null)\<lparr>bin_code := Val ''BIN-404''\<rparr>) =
     (Inl NotFound, demo_world) \<and>
   response_status (fst (receiveSensorData env_ok demo_world
      ((request_fill Null)\<lparr>bin_code := Val ''BIN-404''\<rparr>))) = 404 \<and>
   receiveSensorData env_ok demo_world ((request_fill (Val 97))\<lparr>bin_code := Null\<rparr>) =
     (Inl InvalidInput, demo_world) \<and>
   receiveSensorData env_ok demo_world (request_fill Absent) = (Inl InvalidInput, demo_world)"
  by (simp add: receiveSensorData_def response_status_def request_fill_def env_ok_def
      demo_world_def demo_bin_def)

theorem C4_null_fill_level_not_rejected_witness:
  "fst (receiveSensorData env_ok demo_world (request_fill Null)) = Inl StorageError \<and>
   fst (receiveSensorData env_ok demo_world (request_fill Null)) \<noteq> Inl InvalidInput \<and>
   snd (receiveSensorData env_ok demo_world (request_fill Null)) = demo_world"
  using C4_null_fill_level_not_rejected by simp

subsection \<open>Collection workflow\<close>

lemma createCollection_logged:
  assumes "c_bin_id req = Val binId" and "\<not> fails e Select_bin"
    and "single (filter (\<lambda>b. b_id b = binId) (bins w)) = Some b"
    and "\<not> fails e Insert_collection_log"
  shows "createCollection e w req =
    (let log = \<lparr>cl_id = next_id w, cl_bin_id = binId,
                  cl_collected_by = or_null_id (c_collected_by req),
                  cl_fill_level_before = b_fill_level b, cl_fill_level_after = 0,
                  cl_notes = or_null_str (c_notes req), cl_collected_at = now e\<rparr>;
         w1 = w\<lparr>collection_logs := collection_logs w @ [log], next_id := Suc (next_id w)\<rparr>;
         bs = map (\<lambda>b'. if b_id b' = binId
                          then b'\<lparr>b_fill_level := 0, b_last_emptied := Some (now e)\<rparr>
                          else b') (bins w);
         updatedBin = (if fails e Reset_bin then None
                       else single (filter (\<lambda>b'. b_id b' = binId) bs));
         w2 = (if fails e Reset_bin then w1 else w1\<lparr>bins := bs\<rparr>);
         w3 = (if fails e Resolve_open_alerts then w2
               else w2\<lparr>alerts := resolveOpenAlerts (now e) binId
                                     (or_null_id (c_collected_by req)) (alerts w)\<rparr>);
         w4 = (case updatedBin of None \<Rightarrow> w3 | Some ub \<Rightarrow> emitBinStatusUpdate w3 ub)
     in (Inr log, w4))"
  using assms by (simp add: createCollection_def Let_def split: option.split)

lemma reset_bins_all:
  assumes "b' \<in> set (map (\<lambda>x. if b_id x = binId
                              then x\<lparr>b_fill_level := 0, b_last_emptied := Some t\<rparr>
                              else x) bs)"
    and "b_id b' = binId"
  shows "b_fill_level b' = 0 \<and> b_last_emptied b' = Some t"
proof -
  from assms(1) obtain x where
    b': "b' = (if b_id x = binId then x\<lparr>b_fill_level := 0, b_last_emptied := Some t\<rparr> else x)"
    unfolding set_map by (rule imageE)
  show ?thesis
  proof (cases "b_id x = binId")
    case True
    with b' show ?thesis by simp
  next
    case False
    with b' assms(2) show ?thesis by simp
  qed
qed

lemma reset_bins_ex:
  "b \<in> set bs \<Longrightarrow> b_id b = binId \<Longrightarrow>
     \<exists>b' \<in> set (map (\<lambda>b'. if b_id b' = binId
                              then b'\<lparr>b_fill_level := 0, b_last_emptied := Some t\<rparr>
                              else b') bs). b_id b' = binId"
  by (induction bs) auto

lemma single_filter_mem:
  "single (filter P xs) = Some x \<Longrightarrow> x \<in> set xs \<and> P x"
proof -
  assume a: "single (filter P xs) = Some x"
  then have "filter P xs = [x]"
    by (cases "filter P xs" rule: single.cases) simp_all
  then have "x \<in> set (filter P xs)" by simp
  then show ?thesis by simp
qed

lemma createCollection_reset:
  assumes "c_bin_id req = Val binId" and "\<not> fails e Select_bin"
    and "single (filter (\<lambda>b. b_id b = binId) (bins w)) = Some b"
    and "\<not> fails e Insert_collection_log" and "\<not> fails e Reset_bin"
  shows "fst (createCollection e w req) =
      Inr \<lparr>cl_id = next_id w, cl_bin_id = binId,
           cl_collected_by = or_null_id (c_collected_by req),
           cl_fill_level_before = b_fill_level b, cl_fill_level_after = 0,
           cl_notes = or_null_str (c_notes req), cl_collected_at = now e\<rparr>"
    and "collection_logs (snd (createCollection e w req)) = collection_logs w @
      [\<lparr>cl_id = next_id w, cl_bin_id = binId,
           cl_collected_by = or_null_id (c_collected_by req),
           cl_fill_level_before = b_fill_level b, cl_fill_level_after = 0,
           cl_notes = or_null_str (c_notes req), cl_collected_at = now e\<rparr>]"
    and "bins (snd (createCollection e w req)) =
      map (\<lambda>b'. if b_id b' = binId
                 then b'\<lparr>b_fill_level := 0, b_last_emptied := Some (now e)\<rparr>
                 else b') (bins w)"
  using assms(5)
  by (simp_all add: createCollection_logged [OF assms(1-4)] Let_def emitBinStatusUpdate_frame
      split: option.split)

text \<open>
  C5 (amended). For every collection request on an existing bin whose bin lookup and
  collection-log insert succeed and whose bin update the store applies, the request
  answers with the inserted log, the log has \<^verbatim>\<open>fill_level_before\<close> equal to the
  bin's fill at the start of the request and \<^verbatim>\<open>fill_level_after\<close> equal to 0, and
  afterwards the bin's fill level is exactly 0 and \<^verbatim>\<open>last_emptied\<close> is the time of
  the request, whatever the prior fill was. If no bin has the given id the request fails
  with NotFound and nothing changes. The bin update is best-effort: when the store
  rejects it the request still answers with the log, and the bins are left as they were.
\<close>

theorem C5_collection_resets_bin:
  "(c_bin_id req = Val binId \<and> \<not> fails e Select_bin \<and>
    single (filter (\<lambda>b. b_id b = binId) (bins w)) = Some b \<and>
    \<not> fails e Insert_collection_log \<and> \<not> fails e Reset_bin \<longrightarrow>
      (\<exists>log w'. createCollection e w req = (Inr log, w') \<and>
         cl_bin_id log = binId \<and>
         cl_fill_level_before log = b_fill_level b \<and> cl_fill_level_after log = 0 \<and>
         collection_logs w' = collection_logs w @ [log] \<and>
         bins w' = map (\<lambda>b'. if b_id b' = binId
                              then b'\<lparr>b_fill_level := 0, b_last_emptied := Some (now e)\<rparr>
                              else b') (bins w) \<and>
         (\<exists>b' \<in> set (bins w'). b_id b' = binId) \<and>
         (\<forall>b' \<in> set (bins w'). b_id b' = binId \<longrightarrow>
            b_fill_level b' = 0 \<and> b_last_emptied b' = Some (now e)))) \<and>
   (c_bin_id req = Val binId \<and> (\<forall>b \<in> set (bins w). b_id b \<noteq> binId) \<longrightarrow>
      createCollection e w req = (Inl NotFound, w)) \<and>
   (c_bin_id req = Val binId \<and> \<not> fails e Select_bin \<and>
    single (filter (\<lambda>b. b_id b = binId) (bins w)) = Some b \<and>
    \<not> fails e Insert_collection_log \<and> fails e Reset_bin \<longrightarrow>
      (\<exists>log. fst (createCollection e w req) = Inr log) \<and>
      bins (snd (createCollection e w req)) = bins w)"
proof (intro conjI impI)
  assume a: "c_bin_id req = Val binId \<and> \<not> fails e Select_bin \<and>
    single (filter (\<lambda>b. b_id b = binId) (bins w)) = Some b \<and>
    \<not> fails e Insert_collection_log \<and> \<not> fails e Reset_bin"
  then have v: "c_bin_id req = Val binId" "\<not> fails e Select_bin"
    "single (filter (\<lambda>b. b_id b = binId) (bins w)) = Some b"
    "\<not> fails e Insert_collection_log" "\<not> fails e Reset_bin"
    by simp_all
  note res = createCollection_reset [OF v]
  from single_filter_mem [OF v(3)] have mem: "b \<in> set (bins w)" and bid: "b_id b = binId"
    by simp_all
  have pair: "createCollection e w req =
      (fst (createCollection e w req), snd (createCollection e w req))"
    by simp
  show "\<exists>log w'. createCollection e w req = (Inr log, w') \<and>
         cl_bin_id log = binId \<and>
         cl_fill_level_before log = b_fill_level b \<and> cl_fill_level_after log = 0 \<and>
         collection_logs w' = collection_logs w @ [log] \<and>
         bins w' = map (\<lambda>b'. if b_id b' = binId
                              then b'\<lparr>b_fill_level := 0, b_last_emptied := Some (now e)\<rparr>
                              else b') (bins w) \<and>
         (\<exists>b' \<in> set (bins w'). b_id b' = binId) \<and>
         (\<forall>b' \<in> set (bins w'). b_id b' = binId \<longrightarrow>
            b_fill_level b' = 0 \<and> b_last_emptied b' = Some (now e))"
    apply (rule exI [of _ "\<lparr>cl_id = next_id w, cl_bin_id = binId,
           cl_collected_by = or_null_id (c_collected_by req),
           cl_fill_level_before = b_fill_level b, cl_fill_level_after = 0,
           cl_notes = or_null_str (c_notes req), cl_collected_at = now e\<rparr>"])
    apply (rule exI [of _ "snd (createCollection e w req)"])
    apply (intro conjI)
           apply (subst pair, simp only: res)
          apply simp
         apply simp
        apply simp
       apply (simp only: res)
      apply (simp only: res)
     apply (simp only: res, rule reset_bins_ex [OF mem bid])
    apply (simp only: res, intro ballI impI, erule (1) reset_bins_all)
    done
next
  assume a: "c_bin_id req = Val binId \<and> (\<forall>b \<in> set (bins w). b_id b \<noteq> binId)"
  then have "filter (\<lambda>b. b_id b = binId) (bins w) = []"
    by (simp add: filter_empty_conv)
  with a show "createCollection e w req = (Inl NotFound, w)"
    by (simp add: createCollection_def)
next
  assume a: "c_bin_id req = Val binId \<and> \<not> fails e Select_bin \<and>
    single (filter (\<lambda>b. b_id b = binId) (bins w)) = Some b \<and>
    \<not> fails e Insert_collection_log \<and> fails e Reset_bin"
  then have v: "c_bin_id req = Val binId" "\<not> fails e Select_bin"
    "single (filter (\<lambda>b. b_id b = binId) (bins w)) = Some b"
    "\<not> fails e Insert_collection_log" and f: "fails e Reset_bin"
    by simp_all
  show "\<exists>log. fst (createCollection e w req) = Inr log"
    by (simp add: createCollection_logged [OF v] Let_def)
next
  assume a: "c_bin_id req = Val binId \<and> \<not> fails e Select_bin \<and>
    single (filter (\<lambda>b. b_id b = binId) (bins w)) = Some b \<and>
    \<not> fails e Insert_collection_log \<and> fails e Reset_bin"
  then have v: "c_bin_id req = Val binId" "\<not> fails e Select_bin"
    "single (filter (\<lambda>b. b_id b = binId) (bins w)) = Some b"
    "\<not> fails e Insert_collection_log" and f: "fails e Reset_bin"
    by simp_all
  show "bins (snd (createCollection e w req)) = bins w"
    using f by (simp add: createCollection_logged [OF v] Let_def)
qed

text \<open>
  Without the proviso on the bin update the property fails: when the store rejects that
  update, the request on the existing bin 1 (fill 10) completes with its log, and the bin
  still has fill 10 and no \<^verbatim>\<open>last_emptied\<close>.
\<close>

theorem C5_reset_failure_counterexample:
  "\<exists>log w'. createCollection (env_failing Reset_bin) demo_world collect_request = (Inr log, w') \<and>
     map b_id (bins demo_world) = [1] \<and>
     collection_logs w' = [log] \<and>
     map b_fill_level (bins w') = [10] \<and> map b_last_emptied (bins w') = [None]"
  by (simp add: createCollection_def env_failing_def demo_world_def demo_bin_def
      collect_request_def Let_def)

theorem C5_collection_resets_bin_witness:
  "b_fill_level demo_bin = 10 \<and>
   (\<exists>log w'. createCollection env_ok demo_world collect_request = (Inr log, w') \<and>
      cl_bin_id log = 1 \<and>
      cl_fill_level_before log = b_fill_level demo_bin \<and> cl_fill_level_after log = 0 \<and>
      collection_logs w' = collection_logs demo_world @ [log] \<and>
      bins w' = [demo_bin\<lparr>b_fill_level := 0, b_last_emptied := Some 1000\<rparr>] \<and>
      (\<exists>b' \<in> set (bins w'). b_id b' = 1) \<and>
      (\<forall>b' \<in> set (bins w'). b_id b' = 1 \<longrightarrow>
         b_fill_level b' = 0 \<and> b_last_emptied b' = Some 1000)) \<and>
   createCollection env_ok demo_world (collect_request\<lparr>c_bin_id := Val 7\<rparr>) =
     (Inl NotFound, demo_world)"
  using C5_collection_resets_bin [of collect_request 1 env_ok demo_world demo_bin, THEN conjunct1]
    C5_collection_resets_bin [of "collect_request\<lparr>c_bin_id := Val 7\<rparr>" 7 env_ok demo_world
      demo_bin, THEN conjunct2]
  by (simp add: env_ok_def demo_world_def demo_bin_def collect_request_def)









subsection \<open>Notification dispatch\<close>

text \<open>
  C7 (amended). When the insert of the pending row errors, \<^verbatim>\<open>sendNotification\<close>
  returns null and changes nothing: no sender is called. Otherwise it returns the inserted
  row, whose status is pending, and the table has one more row. When the store applies the
  status update, that row ends as sent with \<^verbatim>\<open>sent_at\<close> set (channel email, sms or
  push) or as failed with \<^verbatim>\<open>sent_at\<close> absent (any other channel). The status update
  is best-effort: its result is not checked, and when it errors the row stays pending.
\<close>

theorem C7_dispatch_status:
  "(fails e (Insert_notification (o_user_id opts) (o_alert_id opts) (o_channel opts)) \<longrightarrow>
      sendNotification e w opts = (None, w)) \<and>
   (\<not> fails e (Insert_notification (o_user_id opts) (o_alert_id opts) (o_channel opts)) \<longrightarrow>
      fst (sendNotification e w opts) =
        Some \<lparr>n_id = next_id w, n_user_id = o_user_id opts, n_alert_id = o_alert_id opts,
              n_channel = o_channel opts, n_message = o_message opts, n_status = pending,
              n_sent_at = None, n_created_at = now e\<rparr> \<and>
      length (notifications (snd (sendNotification e w opts))) =
        Suc (length (notifications w))) \<and>
   (\<not> fails e (Insert_notification (o_user_id opts) (o_alert_id opts) (o_channel opts)) \<and>
    \<not> fails e (Update_notification (next_id w)) \<longrightarrow>
      last (notifications (snd (sendNotification e w opts))) =
        \<lparr>n_id = next_id w, n_user_id = o_user_id opts, n_alert_id = o_alert_id opts,
         n_channel = o_channel opts, n_message = o_message opts,
         n_status = (if o_channel opts = email \<or> o_channel opts = sms \<or> o_channel opts = push
                     then sent else failed),
         n_sent_at = (if o_channel opts = email \<or> o_channel opts = sms \<or> o_channel opts = push
                      then Some (now e) else None),
         n_created_at = now e\<rparr>) \<and>
   (\<not> fails e (Insert_notification (o_user_id opts) (o_alert_id opts) (o_channel opts)) \<and>
    fails e (Update_notification (next_id w)) \<longrightarrow>
      last (notifications (snd (sendNotification e w opts))) =
        \<lparr>n_id = next_id w, n_user_id = o_user_id opts, n_alert_id = o_alert_id opts,
         n_channel = o_channel opts, n_message = o_message opts, n_status = pending,
         n_sent_at = None, n_created_at = now e\<rparr>)"
  by (cases "o_channel opts")
     (simp_all add: sendNotification_def sendEmail_def sendSMS_def sendPush_def Let_def)

text \<open>
  Without the proviso on the status update the property fails: when the store rejects
  that update, the notification is created, the email sender is called, the call returns
  the row, and the row is still pending.
\<close>

theorem C7_update_failure_counterexample:
  "\<exists>n w'. sendNotification (env_failing (Update_notification 100)) demo_world demo_opts =
       (Some n, w') \<and>
     stub_calls w' = [(email, 10, Msg_fill_approaching 85)] \<and>
     map n_status (notifications w') = [pending]"
  by (simp add: sendNotification_def sendEmail_def env_failing_def demo_world_def
      demo_opts_def Let_def)

theorem C7_dispatch_status_witness:
  "sendNotification (env_failing (Insert_notification 10 (Some 50) email)) demo_world demo_opts =
     (None, demo_world) \<and>
   n_status (the (fst (sendNotification env_ok demo_world demo_opts))) = pending \<and>
   n_status (last (notifications (snd (sendNotification env_ok demo_world demo_opts)))) = sent \<and>
   n_sent_at (last (notifications (snd (sendNotification env_ok demo_world demo_opts)))) =
     Some 1000 \<and>
   n_status (last (notifications (snd (sendNotification env_ok demo_world
      (demo_opts\<lparr>o_channel := other_channel ''fax''\<rparr>))))) = failed \<and>
   n_sent_at (last (notifications (snd (sendNotification env_ok demo_world
      (demo_opts\<lparr>o_channel := other_channel ''fax''\<rparr>))))) = None"
  using C7_dispatch_status [of "env_failing (Insert_notification 10 (Some 50) email)" demo_opts
      demo_world]
    C7_dispatch_status [of env_ok demo_opts demo_world]
    C7_dispatch_status [of env_ok "demo_opts\<lparr>o_channel := other_channel ''fax''\<rparr>" demo_world]
  by (simp add: env_failing_def env_ok_def demo_opts_def)

subsection \<open>Notification fan-out\<close>

lemma n_key_status_update:
  "map n_key (map (\<lambda>n. if n_id n = i then n\<lparr>n_status := s, n_sent_at := t\<rparr> else n) ns) =
     map n_key ns"
  by (induction ns) (simp_all add: n_key_def)

lemma sendNotification_keys:
  "map n_key (notifications (snd (sendNotification e w opts))) =
     map n_key (notifications w) @
       (if fails e (Insert_notification (o_user_id opts) (o_alert_id opts) (o_channel opts))
        then [] else [(o_user_id opts, o_alert_id opts, o_channel opts)])"
  by (cases "o_channel opts")
     (simp_all add: sendNotification_def sendEmail_def sendSMS_def sendPush_def Let_def
        n_key_status_update, simp_all add: n_key_def)

lemma notify_user_keys:
  assumes "\<forall>uid aid ch. \<not> fails e (Insert_notification uid aid ch)"
  shows "map n_key (notifications (notify_user e a w u)) =
     map n_key (notifications w) @
       map (\<lambda>ch. (u_id u, Some (al_id a), ch)) (policy_channels a u)"
  using assms
  by (cases "u_phone u")
     (simp_all add: notify_user_def Let_def sendNotification_keys policy_channels_def)

lemma notify_users_keys:
  assumes "\<forall>uid aid ch. \<not> fails e (Insert_notification uid aid ch)"
  shows "map n_key (notifications (notify_users e a us w)) =
     map n_key (notifications w) @
       concat (map (\<lambda>u. map (\<lambda>ch. (u_id u, Some (al_id a), ch)) (policy_channels a u)) us)"
  by (induction us arbitrary: w) (simp_all add: notify_user_keys [OF assms])

lemma notifyRelevantUsers_keys:
  assumes "\<forall>uid aid ch. \<not> fails e (Insert_notification uid aid ch)"
    and "\<forall>aid. \<not> fails e (Select_users aid)"
  shows "map n_key (notifications (notifyRelevantUsers e w a)) =
     map n_key (notifications w) @
       concat (map (\<lambda>u. map (\<lambda>ch. (u_id u, Some (al_id a), ch)) (policy_channels a u))
                   (policy_recipients (users w)))"
  using assms(2)
  by (simp add: notifyRelevantUsers_def Let_def notify_users_keys [OF assms(1)]
      policy_recipients_def)

lemma notify_step_keys:
  assumes "\<forall>uid aid ch. \<not> fails e (Insert_notification uid aid ch)"
    and "\<forall>aid. \<not> fails e (Select_users aid)"
  shows "map n_key (notifications
       (if al_severity a = high \<or> al_severity a = critical
        then notifyRelevantUsers e w a else w)) =
     map n_key (notifications w) @ policy_fanout (users w) a"
  by (simp add: policy_fanout_def notifyRelevantUsers_keys [OF assms])

lemma notify_step_users:
  "users (if al_severity a = high \<or> al_severity a = critical
          then notifyRelevantUsers e w a else w) = users w"
  by (simp add: notifyRelevantUsers_frame)

lemma emit_and_notify_keys:
  assumes "\<forall>uid aid ch. \<not> fails e (Insert_notification uid aid ch)"
    and "\<forall>aid. \<not> fails e (Select_users aid)"
  shows "map n_key (notifications (emit_and_notify e as w)) =
     map n_key (notifications w) @ concat (map (policy_fanout (users w)) as)"
proof (induction as arbitrary: w)
  case Nil
  show ?case by simp
next
  case (Cons a as)
  show ?case
    by (simp add: Let_def Cons.IH notify_step_keys [OF assms] notify_step_users
        emitAlert_frame)
qed

text \<open>
  C8 (amended). When the user lookups and the notification inserts succeed, the
  notifications a reading adds are exactly, for each created alert of severity high or
  critical in order, and for each active admin or collector in order: an email
  notification when the user's email is not empty, and an sms notification when the
  user's phone is present and the alert is critical. Alerts of severity medium or low add
  no notification.
\<close>

theorem C8_notification_fanout:
  assumes "\<forall>uid aid ch. \<not> fails e (Insert_notification uid aid ch)"
    and "\<forall>aid. \<not> fails e (Select_users aid)"
  shows "map n_key (notifications (snd (evaluateReading e w r))) =
     map n_key (notifications w) @
       concat (map (policy_fanout (users w)) (fst (evaluateReading e w r)))"
  by (simp add: evaluateReading_def Let_def emit_and_notify_keys [OF assms])

text \<open>
  Without the guard on the email address the property fails: for an active admin whose
  email is empty, a critical alert is created and no email notification is recorded for
  that user.
\<close>

theorem C8_blank_email_counterexample:
  "map al_severity (fst (evaluateReading env_ok world_blank_email reading_fill97)) = [critical] \<and>
   map (\<lambda>u. (u_role u, u_is_active u)) (users world_blank_email) = [(admin, True)] \<and>
   notifications (snd (evaluateReading env_ok world_blank_email reading_fill97)) = []"
  by (simp add: evaluateReading_def candidates_def THRESHOLDS_def buildAlert_def Let_def
      emitAlert_def notifyRelevantUsers_def notify_user_def env_ok_def world_blank_email_def
      demo_world_def reading_fill97_def)

theorem C8_notification_fanout_witness:
  "map al_severity (fst (evaluateReading env_ok demo_world reading_fill97)) = [critical] \<and>
   map al_id (fst (evaluateReading env_ok demo_world reading_fill97)) = [100] \<and>
   map n_key (notifications (snd (evaluateReading env_ok demo_world reading_fill97))) =
     [(10, Some 100, email), (10, Some 100, sms), (11, Some 100, email)] \<and>
   notifications (snd (evaluateReading env_ok demo_world
      (reading_fill97\<lparr>rd_fill_level := 60\<rparr>))) = []"
  using C8_notification_fanout [of env_ok demo_world reading_fill97]
    C8_notification_fanout [of env_ok demo_world "reading_fill97\<lparr>rd_fill_level := 60\<rparr>"]
  by (simp add: evaluateReading_def candidates_def THRESHOLDS_def buildAlert_def Let_def
      emitAlert_def notifyRelevantUsers_def notify_user_def sendNotification_def sendEmail_def
      sendSMS_def env_ok_def demo_world_def demo_users_def reading_fill97_def n_key_def
      policy_fanout_def policy_channels_def policy_recipients_def)

subsection \<open>Resolution state\<close>

text \<open>
  C9. The resolution-state invariant (an open alert has no \<^verbatim>\<open>resolved_at\<close> and no
  \<^verbatim>\<open>resolved_by\<close>) is broken by the manual path: an alert resolved by user 10 and
  then un-resolved with the body \<^verbatim>\<open>{resolved: false}\<close> ends open, with
  \<^verbatim>\<open>resolved_at\<close> cleared and \<^verbatim>\<open>resolved_by\<close> still 10, because
  \<^verbatim>\<open>resolveAlert\<close> puts \<^verbatim>\<open>resolved_by\<close> in its payload only when the body gives one.
\<close>

theorem C9_unresolve_keeps_resolved_by:
  "fst (resolveAlert env_ok world_open_alert 50 resolve_by_10) =
     Inr (open_alert\<lparr>al_resolved := True, al_resolved_at := Some 1000,
                      al_resolved_by := Some 10\<rparr>) \<and>
   fst (resolveAlert env_ok (snd (resolveAlert env_ok world_open_alert 50 resolve_by_10)) 50
          unresolve) =
     Inr (open_alert\<lparr>al_resolved_by := Some 10\<rparr>) \<and>
   alerts (snd (resolveAlert env_ok
       (snd (resolveAlert env_ok world_open_alert 50 resolve_by_10)) 50 unresolve)) =
     [open_alert\<lparr>al_resolved_by := Some 10\<rparr>] \<and>
   al_resolved (open_alert\<lparr>al_resolved_by := Some 10\<rparr>) = False \<and>
   al_resolved_at (open_alert\<lparr>al_resolved_by := Some 10\<rparr>) = None \<and>
   al_resolved_by (open_alert\<lparr>al_resolved_by := Some 10\<rparr>) = Some 10"
  by (simp add: resolveAlert_def updatePayload_def Let_def env_ok_def world_open_alert_def
      demo_world_def open_alert_def resolve_by_10_def unresolve_def)

subsection \<open>Falsy optional fields\<close>

lemma candidates_no_gas:
  "rd_gas_level r = None \<Longrightarrow> Gas \<notin> (origin \<circ> na_message) ` set (candidates r)"
  by (auto simp: candidates_def THRESHOLDS_def buildAlert_def Let_def split: option.splits if_splits)

lemma candidates_no_battery:
  "rd_battery_level r = None \<Longrightarrow> Battery \<notin> (origin \<circ> na_message) ` set (candidates r)"
  by (auto simp: candidates_def THRESHOLDS_def buildAlert_def Let_def split: option.splits if_splits)

lemma evaluateReading_origins:
  "(origin \<circ> al_message) ` set (fst (evaluateReading e w r)) \<subseteq>
     (origin \<circ> na_message) ` set (candidates r)"
proof -
  have "set (map al_message (fst (evaluateReading e w r))) \<subseteq> set (map na_message (candidates r))"
    by (simp only: evaluateReading_messages) simp
  then have "al_message ` set (fst (evaluateReading e w r)) \<subseteq> na_message ` set (candidates r)"
    by simp
  then show ?thesis
    unfolding image_comp [symmetric] by (rule image_mono)
qed

lemma evaluateReading_rows:
  "fst (evaluateReading e w r) =
     (if fails e Insert_alerts then [] else alert_rows (next_id w) (now e) (candidates r))"
  by (cases "candidates r") (simp_all add: evaluateReading_def Let_def)

lemma evaluateReading_readings:
  "sensor_readings (snd (evaluateReading e w r)) = sensor_readings w"
  by (simp add: evaluateReading_def Let_def emit_and_notify_frame)

lemma candidates_battery_zero:
  "rd_battery_level r = Some 0 \<Longrightarrow>
     (maintenance_needed, critical) \<in>
       set (map (\<lambda>a. (na_alert_type a, na_severity a)) (candidates r))"
  by (simp add: candidates_def THRESHOLDS_def buildAlert_def Let_def split: option.split)

text \<open>
  C10. In every accepted submit-reading request, each optional sensor field is stored as
  \<^verbatim>\<open>x || null\<close>: null when the submitted value is falsy (not sent, null, the number
  0, the empty string), the value itself otherwise. The row with these values is the one
  appended to the readings table, the one returned, and the one the thresholds are
  evaluated on: the alerts the request adds are the rows of that reading's candidates (or
  none when their insert errors), and \<^verbatim>\<open>alerts_generated\<close> is their number. So a
  request with \<^verbatim>\<open>battery_level\<close> 0 adds no battery alert and one with
  \<^verbatim>\<open>gas_level\<close> 0 no gas alert, although 0 is at most the critical battery threshold
  and a reading whose battery level is 0 does get the critical battery candidate.
\<close>

theorem C10_falsy_fields_stored_as_null:
  assumes "receiveSensorData e w req = (Inr (rd, n), w')"
  shows "(\<not> truthy_str (waste_type req) \<longrightarrow> rd_waste_type rd = None) \<and>
     (\<not> truthy_num (weight req) \<longrightarrow> rd_weight rd = None) \<and>
     (\<not> truthy_num (gas_level req) \<longrightarrow> rd_gas_level rd = None) \<and>
     (\<not> truthy_num (temperature req) \<longrightarrow> rd_temperature rd = None) \<and>
     (\<not> truthy_num (moisture req) \<longrightarrow> rd_moisture rd = None) \<and>
     (\<not> truthy_num (battery_level req) \<longrightarrow> rd_battery_level rd = None) \<and>
     (\<forall>s. waste_type req = Val s \<and> s \<noteq> [] \<longrightarrow> rd_waste_type rd = Some s) \<and>
     (\<forall>v. weight req = Val v \<and> v \<noteq> 0 \<longrightarrow> rd_weight rd = Some v) \<and>
     (\<forall>v. gas_level req = Val v \<and> v \<noteq> 0 \<longrightarrow> rd_gas_level rd = Some v) \<and>
     (\<forall>v. temperature req = Val v \<and> v \<noteq> 0 \<longrightarrow> rd_temperature rd = Some v) \<and>
     (\<forall>v. moisture req = Val v \<and> v \<noteq> 0 \<longrightarrow> rd_moisture rd = Some v) \<and>
     (\<forall>v. battery_level req = Val v \<and> v \<noteq> 0 \<longrightarrow> rd_battery_level rd = Some v) \<and>
     \<not> truthy_num (Val 0) \<and>
     fill_level req = Val (rd_fill_level rd) \<and>
     (\<exists>b. single (filter (\<lambda>b. Val (b_bin_code b) = bin_code req) (bins w)) = Some b \<and>
          rd_bin_id rd = b_id b) \<and>
     sensor_readings w' = sensor_readings w @ [rd] \<and>
     alerts w' = alerts w @
       (if fails e Insert_alerts then []
        else alert_rows (Suc (next_id w)) (now e) (candidates rd)) \<and>
     n = (if fails e Insert_alerts then 0 else length (candidates rd)) \<and>
     (battery_level req = Val 0 \<longrightarrow>
        Battery \<notin> (origin \<circ> na_message) ` set (candidates rd) \<and>
        (\<forall>a \<in> set (alerts w'). a \<in> set (alerts w) \<or> origin (al_message a) \<noteq> Battery)) \<and>
     (gas_level req = Val 0 \<longrightarrow>
        Gas \<notin> (origin \<circ> na_message) ` set (candidates rd) \<and>
        (\<forall>a \<in> set (alerts w'). a \<in> set (alerts w) \<or> origin (al_message a) \<noteq> Gas)) \<and>
     (0::num) \<le> battery_critical_at THRESHOLDS \<and>
     (rd_battery_level r = Some 0 \<longrightarrow>
        (maintenance_needed, critical) \<in>
          set (map (\<lambda>a. (na_alert_type a, na_severity a)) (candidates r)))"
proof -
  from assms obtain x b where v: "truthy_str (bin_code req)" "fill_level req = Val x"
    "0 \<le> x" "x \<le> 100" "\<not> fails e Select_bin"
    "single (filter (\<lambda>b. Val (b_bin_code b) = bin_code req) (bins w)) = Some b"
    "\<not> fails e Insert_reading"
    by (rule receiveSensorData_success)
  define r0 where "r0 = \<lparr>rd_id = next_id w, rd_bin_id = b_id b, rd_fill_level = x,
                rd_waste_type = or_null_str (waste_type req),
                rd_weight = or_null_num (weight req),
                rd_gas_level = or_null_num (gas_level req),
                rd_temperature = or_null_num (temperature req),
                rd_moisture = or_null_num (moisture req),
                rd_battery_level = or_null_num (battery_level req),
                rd_created_at = now e\<rparr>"
  define w3 where "w3 = emitSensorReading
     (if fails e Update_bin_fill
      then w\<lparr>sensor_readings := sensor_readings w @ [r0], next_id := Suc (next_id w)\<rparr>
      else w\<lparr>sensor_readings := sensor_readings w @ [r0], next_id := Suc (next_id w)\<rparr>
            \<lparr>bins := map (\<lambda>b'. if b_id b' = b_id b then b'\<lparr>b_fill_level := x\<rparr> else b')
                        (bins (w\<lparr>sensor_readings := sensor_readings w @ [r0],
                                 next_id := Suc (next_id w)\<rparr>))\<rparr>) r0"
  have res: "receiveSensorData e w req =
      (Inr (r0, length (fst (evaluateReading e w3 r0))), snd (evaluateReading e w3 r0))"
    using receiveSensorData_stored [OF v] by (simp add: Let_def r0_def w3_def)
  from assms [unfolded res] have rd: "rd = r0"
    and n: "n = length (fst (evaluateReading e w3 r0))"
    and w': "w' = snd (evaluateReading e w3 r0)"
    by auto
  have w3_readings: "sensor_readings w3 = sensor_readings w @ [r0]"
    and w3_alerts: "alerts w3 = alerts w"
    and w3_next: "next_id w3 = Suc (next_id w)"
    by (simp_all add: w3_def emitSensorReading_def)
  have str: "\<not> truthy_str f \<longrightarrow> or_null_str f = None" for f
    by (cases f) simp_all
  have num: "\<not> truthy_num f \<longrightarrow> or_null_num f = None" for f
    by (cases f) simp_all
  have f1: "(\<not> truthy_str (waste_type req) \<longrightarrow> rd_waste_type rd = None) \<and>
     (\<not> truthy_num (weight req) \<longrightarrow> rd_weight rd = None) \<and>
     (\<not> truthy_num (gas_level req) \<longrightarrow> rd_gas_level rd = None) \<and>
     (\<not> truthy_num (temperature req) \<longrightarrow> rd_temperature rd = None) \<and>
     (\<not> truthy_num (moisture req) \<longrightarrow> rd_moisture rd = None) \<and>
     (\<not> truthy_num (battery_level req) \<longrightarrow> rd_battery_level rd = None)"
    by (simp add: rd r0_def num str)
  have f2: "(\<forall>s. waste_type req = Val s \<and> s \<noteq> [] \<longrightarrow> rd_waste_type rd = Some s) \<and>
     (\<forall>v. weight req = Val v \<and> v \<noteq> 0 \<longrightarrow> rd_weight rd = Some v) \<and>
     (\<forall>v. gas_level req = Val v \<and> v \<noteq> 0 \<longrightarrow> rd_gas_level rd = Some v) \<and>
     (\<forall>v. temperature req = Val v \<and> v \<noteq> 0 \<longrightarrow> rd_temperature rd = Some v) \<and>
     (\<forall>v. moisture req = Val v \<and> v \<noteq> 0 \<longrightarrow> rd_moisture rd = Some v) \<and>
     (\<forall>v. battery_level req = Val v \<and> v \<noteq> 0 \<longrightarrow> rd_battery_level rd = Some v)"
    by (simp add: rd r0_def)
  have z: "\<not> truthy_num (Val 0)" by simp
  have fl: "fill_level req = Val (rd_fill_level rd)"
    by (simp add: rd r0_def v(2))
  have bn: "\<exists>b. single (filter (\<lambda>b. Val (b_bin_code b) = bin_code req) (bins w)) = Some b \<and>
          rd_bin_id rd = b_id b"
    using v(6) by (simp add: rd r0_def)
  have sr: "sensor_readings w' = sensor_readings w @ [rd]"
    by (simp add: w' rd evaluateReading_readings w3_readings)
  have al: "alerts w' = alerts w @
       (if fails e Insert_alerts then []
        else alert_rows (Suc (next_id w)) (now e) (candidates rd))"
    by (simp add: w' rd evaluateReading_alerts evaluateReading_rows w3_alerts w3_next)
  have nn: "n = (if fails e Insert_alerts then 0 else length (candidates rd))"
    by (simp add: n rd evaluateReading_length)
  have new_origin: "origin (al_message a) \<in> (origin \<circ> na_message) ` set (candidates rd)"
    if "a \<in> set (alerts w')" "a \<notin> set (alerts w)" for a
  proof -
    from that have "a \<in> set (fst (evaluateReading e w3 r0))"
      by (simp add: w' evaluateReading_alerts w3_alerts)
    then have "(origin \<circ> al_message) a \<in> (origin \<circ> al_message) ` set (fst (evaluateReading e w3 r0))"
      by (rule imageI)
    with evaluateReading_origins [of e w3 r0] show ?thesis
      by (auto simp: rd)
  qed
  have b0: "battery_level req = Val 0 \<longrightarrow>
        Battery \<notin> (origin \<circ> na_message) ` set (candidates rd) \<and>
        (\<forall>a \<in> set (alerts w'). a \<in> set (alerts w) \<or> origin (al_message a) \<noteq> Battery)"
  proof
    assume "battery_level req = Val 0"
    then have "rd_battery_level rd = None" by (simp add: rd r0_def)
    then have nb: "Battery \<notin> (origin \<circ> na_message) ` set (candidates rd)"
      by (rule candidates_no_battery)
    with new_origin show "Battery \<notin> (origin \<circ> na_message) ` set (candidates rd) \<and>
        (\<forall>a \<in> set (alerts w'). a \<in> set (alerts w) \<or> origin (al_message a) \<noteq> Battery)"
      by metis
  qed
  have g0: "gas_level req = Val 0 \<longrightarrow>
        Gas \<notin> (origin \<circ> na_message) ` set (candidates rd) \<and>
        (\<forall>a \<in> set (alerts w'). a \<in> set (alerts w) \<or> origin (al_message a) \<noteq> Gas)"
  proof
    assume "gas_level req = Val 0"
    then have "rd_gas_level rd = None" by (simp add: rd r0_def)
    then have nb: "Gas \<notin> (origin \<circ> na_message) ` set (candidates rd)"
      by (rule candidates_no_gas)
    with new_origin show "Gas \<notin> (origin \<circ> na_message) ` set (candidates rd) \<and>
        (\<forall>a \<in> set (alerts w'). a \<in> set (alerts w) \<or> origin (al_message a) \<noteq> Gas)"
      by metis
  qed
  have th: "(0::num) \<le> battery_critical_at THRESHOLDS"
    by (simp add: THRESHOLDS_def)
  have cz: "rd_battery_level r = Some 0 \<longrightarrow>
        (maintenance_needed, critical) \<in>
          set (map (\<lambda>a. (na_alert_type a, na_severity a)) (candidates r))"
    using candidates_battery_zero [of r] by blast
  from f1 f2 z fl bn sr al nn b0 g0 th cz show ?thesis
    by (intro conjI) (elim conjE, assumption)+
qed

theorem C10_falsy_fields_stored_as_null_witness:
  "\<exists>rd w'. receiveSensorData env_ok demo_world request_zero_battery = (Inr (rd, 0), w') \<and>
     battery_level request_zero_battery = Val 0 \<and> rd_battery_level rd = None \<and>
     gas_level request_zero_battery = Val 0 \<and> rd_gas_level rd = None \<and>
     temperature request_zero_battery = Val 28.3 \<and> rd_temperature rd = Some 28.3 \<and>
     rd_fill_level rd = 30 \<and> rd_bin_id rd = 1 \<and>
     sensor_readings w' = [rd] \<and> alerts w' = []"
proof -
  have "\<exists>rd n w'. receiveSensorData env_ok demo_world request_zero_battery = (Inr (rd, n), w')"
    by (simp add: receiveSensorData_def evaluateReading_def candidates_def THRESHOLDS_def
        emitSensorReading_def Let_def env_ok_def demo_world_def demo_bin_def
        request_zero_battery_def)
  then obtain rd n w' where
    run: "receiveSensorData env_ok demo_world request_zero_battery = (Inr (rd, n), w')"
    by blast
  note c = C10_falsy_fields_stored_as_null [OF run]
  have z: "battery_level request_zero_battery = Val 0" "gas_level request_zero_battery = Val 0"
    "temperature request_zero_battery = Val 28.3"
    by (simp_all add: request_zero_battery_def)
  have nulls: "rd_battery_level rd = None" "rd_gas_level rd = None"
    using c z by simp_all
  have temp: "rd_temperature rd = Some 28.3"
    using c z by simp
  have fill: "rd_fill_level rd = 30"
    using c by (simp add: request_zero_battery_def)
  have bin: "rd_bin_id rd = 1"
    using c by (auto simp: request_zero_battery_def demo_world_def demo_bin_def)
  have sr: "sensor_readings w' = [rd]"
    using c by (simp add: demo_world_def)
  have cands: "candidates rd = []"
    using nulls temp fill
    by (simp add: candidates_def THRESHOLDS_def Let_def)
  have al: "alerts w' = []" and n0: "n = 0"
    using c cands by (simp_all add: demo_world_def env_ok_def)
  from run n0 z nulls temp fill bin sr al show ?thesis
    by blast
qed

end
